theory Spec2Isabelle
  imports Complex_Main "HOL-Library.AList"
begin

section \<open>JSON values and the Python operations the relay applies to them\<close>

text \<open>
  The relay (\<^verbatim>\<open>proxy_app.py\<close>) works on the values that a JSON parser hands to Python:
  \<^verbatim>\<open>None\<close>, booleans, integers, floats, strings, lists and dicts with string keys.
  A dict is an association list in insertion order (a dict has each key once; a lookup
  takes the first entry of a key and a removal takes all of them); a float is the rational
  its literal denotes (rounding is not modelled); a string is a list of 8-bit characters.
\<close>

datatype json =
    JNull
  | JBool bool
  | JInt int
  | JFloat rat
  | JStr string
  | JList "json list"
  | JObj "(string \<times> json) list"

text \<open>
  Exceptions are values. \<open>HTTPError\<close> is \<^verbatim>\<open>requests.exceptions.HTTPError\<close> and carries the
  upstream response; every other exception carries its class and the text of \<^verbatim>\<open>str(e)\<close>.
  \<open>RequestException\<close> stands for the transport failures of \<^verbatim>\<open>requests\<close> (connection
  errors, timeouts) and \<open>BadRequest\<close> for the HTTP exceptions that the web framework raises
  while it reads the body.
\<close>

record upstream_response =
  status_code :: int
  response_text :: string
  json_body :: "json option"

datatype exn_class =
    AttributeError | TypeError | IndexError | KeyError | ValueError
  | JSONDecodeError | RequestException | BadRequest

datatype exn =
    HTTPError upstream_response
  | Raised exn_class string

definition and_then :: "exn + 'a \<Rightarrow> ('a \<Rightarrow> exn + 'b) \<Rightarrow> exn + 'b" where
  "and_then r f = (case r of Inl e \<Rightarrow> Inl e | Inr v \<Rightarrow> f v)"

fun type_name :: "json \<Rightarrow> string" where
  "type_name JNull = ''NoneType''"
| "type_name (JBool _) = ''bool''"
| "type_name (JInt _) = ''int''"
| "type_name (JFloat _) = ''float''"
| "type_name (JStr _) = ''str''"
| "type_name (JList _) = ''list''"
| "type_name (JObj _) = ''dict''"

definition quoted :: "string \<Rightarrow> string" where
  "quoted s = CHR 0x27 # s @ [CHR 0x27]"

definition no_attribute :: "json \<Rightarrow> string \<Rightarrow> exn" where
  "no_attribute v a =
     Raised AttributeError (quoted (type_name v) @ '' object has no attribute '' @ quoted a)"

text \<open>\<^verbatim>\<open>not v\<close>: the falsy values are \<^verbatim>\<open>None\<close>, \<^verbatim>\<open>False\<close>, zero, and the empty string, list and dict.\<close>

fun truthy :: "json \<Rightarrow> bool" where
  "truthy JNull = False"
| "truthy (JBool b) = b"
| "truthy (JInt i) = (i \<noteq> 0)"
| "truthy (JFloat r) = (r \<noteq> 0)"
| "truthy (JStr s) = (s \<noteq> [])"
| "truthy (JList xs) = (xs \<noteq> [])"
| "truthy (JObj kvs) = (kvs \<noteq> [])"

text \<open>\<^verbatim>\<open>v.get(key, default)\<close>: only a dict has the method.\<close>

fun py_get :: "json \<Rightarrow> string \<Rightarrow> json \<Rightarrow> exn + json" where
  "py_get (JObj kvs) k d = Inr (case map_of kvs k of Some v \<Rightarrow> v | None \<Rightarrow> d)"
| "py_get v k d = Inl (no_attribute v ''get'')"

text \<open>
  \<^verbatim>\<open>v.pop(key, default)\<close>: on a dict it returns the value (or the default) and removes the
  key; the model returns the dict that remains. A list has \<^verbatim>\<open>pop\<close>, but with one argument
  at most.
\<close>

fun py_pop :: "json \<Rightarrow> string \<Rightarrow> json \<Rightarrow> exn + (json \<times> json)" where
  "py_pop (JObj kvs) k d =
     Inr (case map_of kvs k of Some v \<Rightarrow> v | None \<Rightarrow> d, JObj (AList.delete k kvs))"
| "py_pop (JList xs) k d = Inl (Raised TypeError ''pop expected at most 1 argument, got 2'')"
| "py_pop v k d = Inl (no_attribute v ''pop'')"

text \<open>\<^verbatim>\<open>v[0]\<close>.\<close>

fun py_index0 :: "json \<Rightarrow> exn + json" where
  "py_index0 (JList []) = Inl (Raised IndexError ''list index out of range'')"
| "py_index0 (JList (x # xs)) = Inr x"
| "py_index0 (JStr []) = Inl (Raised IndexError ''string index out of range'')"
| "py_index0 (JStr (c # cs)) = Inr (JStr [c])"
| "py_index0 (JObj kvs) = Inl (Raised KeyError ''0'')"
| "py_index0 v = Inl (Raised TypeError (quoted (type_name v) @ '' object is not subscriptable''))"

text \<open>\<^verbatim>\<open>for x in v\<close>: the elements of a list, the characters of a string, the keys of a dict.\<close>

fun py_iter :: "json \<Rightarrow> exn + json list" where
  "py_iter (JList xs) = Inr xs"
| "py_iter (JStr s) = Inr (map (\<lambda>c. JStr [c]) s)"
| "py_iter (JObj kvs) = Inr (map (\<lambda>kv. JStr (fst kv)) kvs)"
| "py_iter v = Inl (Raised TypeError (quoted (type_name v) @ '' object is not iterable''))"

text \<open>A loop body run over a list in order; the first exception ends the loop.\<close>

fun for_each :: "('a \<Rightarrow> exn + 'b) \<Rightarrow> 'a list \<Rightarrow> exn + 'b list" where
  "for_each f [] = Inr []"
| "for_each f (x # xs) =
     (case f x of Inl e \<Rightarrow> Inl e
      | Inr y \<Rightarrow> (case for_each f xs of Inl e \<Rightarrow> Inl e | Inr ys \<Rightarrow> Inr (y # ys)))"

text \<open>\<^verbatim>\<open>s.lower()\<close> on ASCII letters.\<close>

definition lower_char :: "char \<Rightarrow> char" where
  "lower_char c =
     (case map_of (zip ''ABCDEFGHIJKLMNOPQRSTUVWXYZ'' ''abcdefghijklmnopqrstuvwxyz'') c of
        Some l \<Rightarrow> l
      | None \<Rightarrow> c)"

definition lower :: "string \<Rightarrow> string" where
  "lower s = map lower_char s"

text \<open>
  \<^verbatim>\<open>s.replace(old, new)\<close>: every occurrence of \<open>old\<close>, found from the left and not
  overlapping, is replaced; an empty \<open>old\<close> matches before every character and at the end.
\<close>

function str_replace :: "string \<Rightarrow> string \<Rightarrow> string \<Rightarrow> string" where
  "str_replace old new s =
     (if old = [] then new @ concat (map (\<lambda>c. c # new) s)
      else if s = [] then []
      else if take (length old) s = old then new @ str_replace old new (drop (length old) s)
      else hd s # str_replace old new (tl s))"
  by pat_completeness auto
termination
  by (relation "measure (\<lambda>(old, new, s). length s)") auto

declare str_replace.simps [simp del]

section \<open>Format translator\<close>

text \<open>
  \<^verbatim>\<open>transform_to_openai_format\<close>, lines 26 to 33. \<open>transform_turn\<close> is the body of its loop:
  the role first, then the text of the first part.
\<close>

definition transform_turn :: "json \<Rightarrow> exn + json" where
  "transform_turn message =
     and_then (py_get message ''role'' JNull) (\<lambda>r.
     and_then (py_get message ''parts'' (JList [JObj []])) (\<lambda>parts.
     and_then (py_index0 parts) (\<lambda>part.
     and_then (py_get part ''text'' (JStr [])) (\<lambda>txt.
       Inr (JObj [(''role'', JStr (if r = JStr ''model'' then ''assistant'' else ''user'')),
                  (''content'', txt)])))))"

definition transform_to_openai_format :: "json \<Rightarrow> exn + json list" where
  "transform_to_openai_format client_data =
     and_then (py_get client_data ''contents'' (JList [])) (\<lambda>contents.
     and_then (py_iter contents) (\<lambda>turns. for_each transform_turn turns))"

text \<open>\<^verbatim>\<open>transform_to_gemini_format\<close>, lines 35 to 43; the first choice is read twice.\<close>

definition transform_to_gemini_format :: "json \<Rightarrow> exn + json" where
  "transform_to_gemini_format openai_response_json =
     and_then (py_get openai_response_json ''choices'' (JList [JObj []])) (\<lambda>choices.
     and_then (py_index0 choices) (\<lambda>choice.
     and_then (py_get choice ''message'' (JObj [])) (\<lambda>message.
     and_then (py_get message ''content'' (JStr [])) (\<lambda>generated_text.
     and_then (py_get openai_response_json ''choices'' (JList [JObj []])) (\<lambda>choices'.
     and_then (py_index0 choices') (\<lambda>choice'.
     and_then (py_get choice' ''finish_reason'' (JStr ''STOP'')) (\<lambda>finish_reason.
       Inr (JObj [(''candidates'', JList [JObj
              [(''content'', JObj [(''role'', JStr ''model''),
                                   (''parts'', JList [JObj [(''text'', generated_text)]])]),
               (''finishReason'', finish_reason)]])]))))))))"

section \<open>The process state and what lies outside the process\<close>

text \<open>
  The state of the process: the monotonic clock, the global \<^verbatim>\<open>last_gemini_request_time\<close>,
  the environment variables, and the log of the calls made with \<^verbatim>\<open>requests.post\<close>, each
  stamped with the clock reading at which it started. \<^verbatim>\<open>proxy_handler\<close> runs under
  \<^verbatim>\<open>api_lock\<close>, so one request is handled from start to end before the next one starts:
  a handler is a function from the state before to the state after.
\<close>

record outbound =
  url :: string
  payload :: json
  headers :: "(string \<times> string) list"
  timeout :: nat
  sent_at :: rat

record world =
  clock :: rat
  last_gemini_request_time :: rat
  environ :: "string \<Rightarrow> string option"
  sent :: "outbound list"

text \<open>
  What the process does not decide, for the handling of one request: the upstream's answer
  to a call, how long that call takes, by how much \<^verbatim>\<open>time.sleep\<close> oversleeps, and the
  text that an f-string gives for a value that is not a string.
\<close>

datatype upstream_result = Responded upstream_response | Transport_Failure string

record platform =
  respond :: "outbound \<Rightarrow> upstream_result"
  latency :: rat
  oversleep :: rat
  str_of :: "json \<Rightarrow> string"

definition GEMINI_REQUEST_DELAY :: rat where
  "GEMINI_REQUEST_DELAY = 11"

definition time_sleep :: "platform \<Rightarrow> rat \<Rightarrow> world \<Rightarrow> world" where
  "time_sleep pf secs w = w\<lparr>clock := clock w + secs + oversleep pf\<rparr>"

definition requests_post ::
  "platform \<Rightarrow> string \<Rightarrow> json \<Rightarrow> (string \<times> string) list \<Rightarrow> nat \<Rightarrow> world
     \<Rightarrow> (exn + upstream_response) \<times> world" where
  "requests_post pf api_url body hs secs w =
     (let call = \<lparr>url = api_url, payload = body, headers = hs, timeout = secs,
                   sent_at = clock w\<rparr>;
          w' = w\<lparr>clock := clock w + latency pf, sent := sent w @ [call]\<rparr>
      in case respond pf call of
           Transport_Failure m \<Rightarrow> (Inl (Raised RequestException m), w')
         | Responded r \<Rightarrow> (Inr r, w'))"

text \<open>\<^verbatim>\<open>response.raise_for_status()\<close> raises for the statuses 400 to 599.\<close>

definition raise_for_status :: "upstream_response \<Rightarrow> exn + unit" where
  "raise_for_status r =
     (if 400 \<le> status_code r \<and> status_code r < 600 then Inl (HTTPError r) else Inr ())"

definition response_json :: "upstream_response \<Rightarrow> exn + json" where
  "response_json r =
     (case json_body r of
        None \<Rightarrow> Inl (Raised JSONDecodeError ''Expecting value: line 1 column 1 (char 0)'')
      | Some j \<Rightarrow> Inr j)"

fun format_value :: "platform \<Rightarrow> json \<Rightarrow> string" where
  "format_value pf (JStr s) = s"
| "format_value pf v = str_of pf v"

section \<open>Provider clients\<close>

text \<open>\<^verbatim>\<open>user_api_key if user_api_key else os.getenv(env_key)\<close>, lines 47 and 89.\<close>

definition pick_key :: "string \<Rightarrow> string option \<Rightarrow> string option" where
  "pick_key user_api_key env_value = (if user_api_key \<noteq> [] then Some user_api_key else env_value)"

text \<open>A dict display with \<^verbatim>\<open>**extra\<close> at its end: the entries of \<open>extra\<close> are stored in order.\<close>

definition dict_merge :: "(string \<times> 'v) list \<Rightarrow> (string \<times> 'v) list \<Rightarrow> (string \<times> 'v) list" where
  "dict_merge base extra = fold (\<lambda>kv. AList.update (fst kv) (snd kv)) extra base"

text \<open>Lines 55 to 60: the payload, its four values read in order.\<close>

definition openai_payload :: "json \<Rightarrow> json list \<Rightarrow> exn + json" where
  "openai_payload client_data openai_messages =
     and_then (py_get client_data ''modelName'' (JStr ''default-model'')) (\<lambda>model.
     and_then (py_get client_data ''generationConfig'' (JObj [])) (\<lambda>config.
     and_then (py_get config ''temperature'' (JFloat (7 / 10))) (\<lambda>temperature.
     and_then (py_get client_data ''generationConfig'' (JObj [])) (\<lambda>config'.
     and_then (py_get config' ''maxOutputTokens'' (JInt 4096)) (\<lambda>max_tokens.
       Inr (JObj [(''model'', model), (''messages'', JList openai_messages),
                  (''temperature'', temperature), (''max_tokens'', max_tokens)]))))))"

text \<open>\<^verbatim>\<open>handle_openai_compatible\<close>, lines 45 to 76.\<close>

definition handle_openai_compatible ::
  "platform \<Rightarrow> json \<Rightarrow> string \<Rightarrow> string \<Rightarrow> string \<Rightarrow> string \<Rightarrow> (string \<times> string) list
     \<Rightarrow> world \<Rightarrow> (exn + json) \<times> world" where
  "handle_openai_compatible pf client_data user_api_key provider_name base_url env_key
       extra_headers w =
     (let missing = Raised ValueError (provider_name @
            '' API key is missing. Not found in client request or on server (env var: '' @
            env_key @ '').'')
      in case pick_key user_api_key (environ w env_key) of
           None \<Rightarrow> (Inl missing, w)
         | Some api_key \<Rightarrow>
             if api_key = [] then (Inl missing, w)
             else
               (case and_then (transform_to_openai_format client_data)
                       (openai_payload client_data) of
                  Inl e \<Rightarrow> (Inl e, w)
                | Inr body \<Rightarrow>
                    (case requests_post pf (base_url @ ''/chat/completions'') body
                            (dict_merge [(''HTTP-Authorization'', ''Bearer '' @ api_key),
                                         (''Content-Type'', ''application/json'')]
                               extra_headers) 60 w of
                       (Inl e, w') \<Rightarrow> (Inl e, w')
                     | (Inr response, w') \<Rightarrow>
                         (and_then (raise_for_status response) (\<lambda>_.
                          and_then (response_json response) transform_to_gemini_format),
                          w'))))"

text \<open>Lines 82 to 86 of \<^verbatim>\<open>handle_gemini_request\<close>: the wait of the rate limiter.\<close>

definition gemini_rate_limit :: "platform \<Rightarrow> world \<Rightarrow> world" where
  "gemini_rate_limit pf w =
     (let elapsed_time = clock w - last_gemini_request_time w
      in if elapsed_time < GEMINI_REQUEST_DELAY
         then time_sleep pf (GEMINI_REQUEST_DELAY - elapsed_time) w else w)"

text \<open>
  \<^verbatim>\<open>handle_gemini_request\<close>, lines 78 to 101: the wait, the key, the call, and the
  assignment to \<^verbatim>\<open>last_gemini_request_time\<close> once \<^verbatim>\<open>raise_for_status\<close> has returned.
\<close>

definition handle_gemini_request ::
  "platform \<Rightarrow> json \<Rightarrow> string \<Rightarrow> world \<Rightarrow> (exn + json) \<times> world" where
  "handle_gemini_request pf client_data user_api_key w =
     (let w1 = gemini_rate_limit pf w;
          missing = Raised ValueError
            ''Gemini API key is missing. Not found in client request or on server.''
      in case pick_key user_api_key (environ w1 ''GEMINI_API_KEY'') of
           None \<Rightarrow> (Inl missing, w1)
         | Some api_key \<Rightarrow>
             if api_key = [] then (Inl missing, w1)
             else
               (case py_pop client_data ''modelName'' (JStr ''gemini-1.5-flash-latest'') of
                  Inl e \<Rightarrow> (Inl e, w1)
                | Inr (model_name, body) \<Rightarrow>
                    (case requests_post pf
                            (''https://generativelanguage.googleapis.com/v1beta/models/'' @
                             format_value pf model_name @ '':generateContent?key='' @ api_key)
                            body [] 45 w1 of
                       (Inl e, w2) \<Rightarrow> (Inl e, w2)
                     | (Inr response, w2) \<Rightarrow>
                         (case raise_for_status response of
                            Inl e \<Rightarrow> (Inl e, w2)
                          | Inr _ \<Rightarrow>
                              (response_json response,
                               w2\<lparr>last_gemini_request_time := clock w2\<rparr>)))))"

section \<open>Dispatcher\<close>

text \<open>
  An inbound request, as the handler reads it: what \<^verbatim>\<open>request.get_json()\<close> does (it returns
  the parsed body, or the framework raises its \<open>BadRequest\<close> when the body does not parse) and
  the \<^verbatim>\<open>Authorization\<close> header, when there is one.
\<close>

record inbound =
  get_json :: "exn + json"
  authorization :: "string option"

record http_response =
  status :: int
  body :: json

definition error_body :: "string \<Rightarrow> json" where
  "error_body m = JObj [(''error'', JObj [(''message'', JStr m)])]"

definition jsonify :: "(exn + json) \<times> world \<Rightarrow> (exn + http_response) \<times> world" where
  "jsonify rw =
     (case fst rw of Inl e \<Rightarrow> Inl e | Inr j \<Rightarrow> Inr \<lparr>status = 200, body = j\<rparr>, snd rw)"

fun py_lower :: "json \<Rightarrow> exn + string" where
  "py_lower (JStr s) = Inr (lower s)"
| "py_lower v = Inl (no_attribute v ''lower'')"

text \<open>Line 113: the caller's key, read from the \<^verbatim>\<open>Authorization\<close> header.\<close>

definition request_api_key :: "inbound \<Rightarrow> string" where
  "request_api_key req =
     str_replace ''Bearer '' [] (case authorization req of None \<Rightarrow> [] | Some h \<Rightarrow> h)"

text \<open>The body of the \<^verbatim>\<open>try\<close>, lines 107 to 144.\<close>

definition proxy_try :: "platform \<Rightarrow> inbound \<Rightarrow> world \<Rightarrow> (exn + http_response) \<times> world" where
  "proxy_try pf req w =
     (case get_json req of
        Inl e \<Rightarrow> (Inl e, w)
      | Inr client_data \<Rightarrow>
          if \<not> truthy client_data
          then (Inr \<lparr>status = 400, body = error_body ''Invalid JSON body''\<rparr>, w)
          else
            (case py_pop client_data ''provider'' (JStr ''gemini'') of
               Inl e \<Rightarrow> (Inl e, w)
             | Inr (p, client_data') \<Rightarrow>
                 (case py_lower p of
                    Inl e \<Rightarrow> (Inl e, w)
                  | Inr provider \<Rightarrow>
                      (let user_api_key = request_api_key req
                       in if provider = ''llmost'' then
                            jsonify (handle_openai_compatible pf client_data' user_api_key
                              ''LLMost'' ''https://llmost.ru/api/v1'' ''LLMOST_API_KEY'' [] w)
                          else if provider = ''openrouter'' then
                            jsonify (handle_openai_compatible pf client_data' user_api_key
                              ''OpenRouter'' ''https://openrouter.ai/api/v1'' ''OPENROUTER_API_KEY''
                              [(''HTTP-Referer'', ''https://github.com/MrKins/Chronicles-of-Meterea''),
                               (''X-Title'', ''Chronicles of Meterea'')] w)
                          else if provider = ''gemini'' then
                            jsonify (handle_gemini_request pf client_data' user_api_key w)
                          else
                            (Inr \<lparr>status = 400,
                                  body = error_body (''Unsupported provider: '' @ provider)\<rparr>,
                             w)))))"

text \<open>\<^verbatim>\<open>proxy_handler\<close>, lines 104 to 154: the \<^verbatim>\<open>try\<close> and its two \<^verbatim>\<open>except\<close> clauses.\<close>

definition proxy_handler :: "platform \<Rightarrow> inbound \<Rightarrow> world \<Rightarrow> http_response \<times> world" where
  "proxy_handler pf req w =
     (case proxy_try pf req w of
        (Inr resp, w') \<Rightarrow> (resp, w')
      | (Inl (HTTPError r), w') \<Rightarrow>
          (case json_body r of
             Some j \<Rightarrow> (\<lparr>status = status_code r, body = j\<rparr>, w')
           | None \<Rightarrow> (\<lparr>status = status_code r, body = error_body (response_text r)\<rparr>, w'))
      | (Inl (Raised c m), w') \<Rightarrow>
          (\<lparr>status = 500, body = error_body (''Proxy internal error: '' @ m)\<rparr>, w'))"

section \<open>Vocabulary of the claims\<close>

text \<open>
  The definitions of this section are not code of the relay: they say, in the words of the
  specification, what a claim expects, so that a theorem can compare it with what the code
  computes.
\<close>

definition or_default :: "json option \<Rightarrow> json \<Rightarrow> json" where
  "or_default v d = (case v of Some x \<Rightarrow> x | None \<Rightarrow> d)"

text \<open>The canonical response: one candidate with a text and a finish reason.\<close>

definition gemini_candidate :: "json \<Rightarrow> json \<Rightarrow> json" where
  "gemini_candidate txt reason =
     JObj [(''candidates'', JList [JObj
        [(''content'', JObj [(''role'', JStr ''model''),
                             (''parts'', JList [JObj [(''text'', txt)]])]),
         (''finishReason'', reason)]])]"

text \<open>
  A turn the translator accepts: an object whose \<^verbatim>\<open>parts\<close> is absent, or a list that starts
  with an object. \<open>spec_message\<close> is the message the specification gives for such a turn.
\<close>

fun usable_parts :: "json option \<Rightarrow> bool" where
  "usable_parts None = True"
| "usable_parts (Some (JList (JObj p # ps))) = True"
| "usable_parts (Some v) = False"

fun well_formed_turn :: "json \<Rightarrow> bool" where
  "well_formed_turn (JObj kvs) = usable_parts (map_of kvs ''parts'')"
| "well_formed_turn v = False"

fun first_text :: "json option \<Rightarrow> json" where
  "first_text (Some (JList (JObj p # ps))) = or_default (map_of p ''text'') (JStr [])"
| "first_text v = JStr []"

fun spec_message :: "json \<Rightarrow> json" where
  "spec_message (JObj kvs) =
     JObj [(''role'', JStr (if map_of kvs ''role'' = Some (JStr ''model'')
                           then ''assistant'' else ''user'')),
           (''content'', first_text (map_of kvs ''parts''))]"
| "spec_message v = JNull"

text \<open>
  The calls a claim expects. \<open>gemini_call\<close> and \<open>openai_call\<close> take what the provider client
  receives; \<open>forwarded_call\<close> and \<open>chat_call\<close> are stated on the inbound body and the
  provider name.
\<close>

definition gemini_call :: "platform \<Rightarrow> world \<Rightarrow> (string \<times> json) list \<Rightarrow> string \<Rightarrow> outbound" where
  "gemini_call pf w cd api_key =
     \<lparr>url = ''https://generativelanguage.googleapis.com/v1beta/models/'' @
             format_value pf (or_default (map_of cd ''modelName'') (JStr ''gemini-1.5-flash-latest'')) @
             '':generateContent?key='' @ api_key,
      payload = JObj (AList.delete ''modelName'' cd),
      headers = [], timeout = 45, sent_at = clock (gemini_rate_limit pf w)\<rparr>"

definition forwarded_call :: "platform \<Rightarrow> world \<Rightarrow> (string \<times> json) list \<Rightarrow> string \<Rightarrow> outbound" where
  "forwarded_call pf w cd api_key =
     \<lparr>url = ''https://generativelanguage.googleapis.com/v1beta/models/'' @
             format_value pf (or_default (map_of cd ''modelName'') (JStr ''gemini-1.5-flash-latest'')) @
             '':generateContent?key='' @ api_key,
      payload = JObj (AList.delete ''modelName'' (AList.delete ''provider'' cd)),
      headers = [], timeout = 45, sent_at = clock (gemini_rate_limit pf w)\<rparr>"

definition openai_call ::
  "world \<Rightarrow> string \<Rightarrow> (string \<times> string) list \<Rightarrow> string \<Rightarrow> json \<Rightarrow> outbound" where
  "openai_call w base_url extra_headers api_key pl =
     \<lparr>url = base_url @ ''/chat/completions'', payload = pl,
      headers = dict_merge [(''HTTP-Authorization'', ''Bearer '' @ api_key),
                            (''Content-Type'', ''application/json'')] extra_headers,
      timeout = 60, sent_at = clock w\<rparr>"

definition chat_payload ::
  "(string \<times> json) list \<Rightarrow> json list \<Rightarrow> (string \<times> json) list \<Rightarrow> json" where
  "chat_payload cd msgs config =
     JObj [(''model'', or_default (map_of cd ''modelName'') (JStr ''default-model'')),
           (''messages'', JList msgs),
           (''temperature'', or_default (map_of config ''temperature'') (JFloat (7 / 10))),
           (''max_tokens'', or_default (map_of config ''maxOutputTokens'') (JInt 4096))]"


definition chat_call :: "world \<Rightarrow> string \<Rightarrow> string \<Rightarrow> json \<Rightarrow> outbound" where
  "chat_call w provider api_key pl =
     \<lparr>url = (if provider = ''llmost'' then ''https://llmost.ru/api/v1''
             else ''https://openrouter.ai/api/v1'') @ ''/chat/completions'',
      payload = pl,
      headers = [(''HTTP-Authorization'', ''Bearer '' @ api_key),
                 (''Content-Type'', ''application/json'')] @
                (if provider = ''llmost'' then []
                 else [(''HTTP-Referer'', ''https://github.com/MrKins/Chronicles-of-Meterea''),
                       (''X-Title'', ''Chronicles of Meterea'')]),
      timeout = 60, sent_at = clock w\<rparr>"

text \<open>\<open>contains old s\<close>: \<open>old\<close> occurs in \<open>s\<close>. \<open>ends_with s suffix\<close>: \<open>s\<close> ends with \<open>suffix\<close>.\<close>

fun contains :: "string \<Rightarrow> string \<Rightarrow> bool" where
  "contains old [] = (old = [])"
| "contains old (c # cs) = (take (length old) (c # cs) = old \<or> contains old cs)"


text \<open>
  The environment variable of a provider (lines 89, 122 and 131), the key the specification
  resolves (the caller's, else the environment's, else none), and what it means for a call
  to carry a key: in the query string for the native provider, in the
  \<^verbatim>\<open>HTTP-Authorization\<close> header for the others.
\<close>

definition env_key_of :: "string \<Rightarrow> string" where
  "env_key_of provider =
     (if provider = ''llmost'' then ''LLMOST_API_KEY''
      else if provider = ''openrouter'' then ''OPENROUTER_API_KEY''
      else ''GEMINI_API_KEY'')"

definition resolved_key :: "inbound \<Rightarrow> world \<Rightarrow> string \<Rightarrow> string option" where
  "resolved_key req w provider =
     (if request_api_key req \<noteq> [] then Some (request_api_key req)
      else case environ w (env_key_of provider) of
             None \<Rightarrow> None
           | Some e \<Rightarrow> if e = [] then None else Some e)"


text \<open>
  Concrete surroundings for the examples: an upstream that always gives the same answer
  after one second, a process that has just started (line 24) with an empty environment,
  one whose environment holds the key \<^verbatim>\<open>envkey\<close> for two providers, a request that
  brings the key \<^verbatim>\<open>k\<close>, and the state after one and after two calls of
  \<^verbatim>\<open>handle_gemini_request\<close>.
\<close>

definition steady_platform :: "upstream_result \<Rightarrow> platform" where
  "steady_platform res =
     \<lparr>respond = (\<lambda>c. res), latency = 1, oversleep = 0, str_of = (\<lambda>v. ''?'')\<rparr>"

definition fresh_world :: "rat \<Rightarrow> world" where
  "fresh_world t =
     \<lparr>clock = t, last_gemini_request_time = 0, environ = (\<lambda>name. None), sent = []\<rparr>"

definition bearer_request :: "json \<Rightarrow> inbound" where
  "bearer_request j = \<lparr>get_json = Inr j, authorization = Some ''Bearer k''\<rparr>"

definition answer :: "int \<Rightarrow> json option \<Rightarrow> upstream_result" where
  "answer code j = Responded \<lparr>status_code = code, response_text = ''busy'', json_body = j\<rparr>"


definition after_one :: "upstream_result \<Rightarrow> world" where
  "after_one res = snd (handle_gemini_request (steady_platform res)
       (JObj [(''contents'', JList [])]) ''k'' (fresh_world 100))"

definition after_two :: "upstream_result \<Rightarrow> world" where
  "after_two res = snd (handle_gemini_request (steady_platform res)
       (JObj [(''contents'', JList [])]) ''k'' (after_one res))"

lemmas relay_defs =
  proxy_handler_def proxy_try_def jsonify_def handle_gemini_request_def
  handle_openai_compatible_def gemini_rate_limit_def time_sleep_def requests_post_def
  raise_for_status_def response_json_def pick_key_def request_api_key_def
  GEMINI_REQUEST_DELAY_def error_body_def and_then_def Let_def
  transform_to_openai_format_def transform_turn_def transform_to_gemini_format_def
  openai_payload_def dict_merge_def lower_def lower_char_def str_replace.simps

lemmas fixture_defs =
  steady_platform_def fresh_world_def bearer_request_def answer_def

section \<open>What the provider clients do, case by case\<close>

lemma gemini_rate_limit_fields [simp]:
  "sent (gemini_rate_limit pf w) = sent w"
  "environ (gemini_rate_limit pf w) = environ w"
  "last_gemini_request_time (gemini_rate_limit pf w) = last_gemini_request_time w"
  by (simp_all add: gemini_rate_limit_def time_sleep_def Let_def)

lemma handle_gemini_no_key:
  assumes "pick_key uk (environ w ''GEMINI_API_KEY'') = None
    \<or> pick_key uk (environ w ''GEMINI_API_KEY'') = Some []"
  shows "handle_gemini_request pf cd uk w =
     (Inl (Raised ValueError ''Gemini API key is missing. Not found in client request or on server.''),
      gemini_rate_limit pf w)"
  using assms by (auto simp: handle_gemini_request_def Let_def)

lemma handle_gemini_sends:
  assumes "pick_key uk (environ w ''GEMINI_API_KEY'') = Some k" "k \<noteq> []"
  shows "handle_gemini_request pf (JObj cd) uk w =
     (let c = gemini_call pf w cd k;
          w1 = gemini_rate_limit pf w;
          w2 = w1\<lparr>clock := clock w1 + latency pf, sent := sent w @ [c]\<rparr>
      in case respond pf c of
           Transport_Failure m \<Rightarrow> (Inl (Raised RequestException m), w2)
         | Responded r \<Rightarrow>
             if 400 \<le> status_code r \<and> status_code r < 600 then (Inl (HTTPError r), w2)
             else (response_json r, w2\<lparr>last_gemini_request_time := clock w2\<rparr>))"
  using assms
  by (simp add: handle_gemini_request_def Let_def requests_post_def gemini_call_def or_default_def
      raise_for_status_def split: upstream_result.splits option.splits)

text \<open>If the native client has made a call, the body was an object and a key was there.\<close>

lemma handle_gemini_called:
  assumes run: "handle_gemini_request pf cd uk w = (res, w')"
    and call: "sent w' = sent w @ [c]"
  obtains cdl k where "cd = JObj cdl" "pick_key uk (environ w ''GEMINI_API_KEY'') = Some k"
    "k \<noteq> []" "c = gemini_call pf w cdl k"
proof -
  have key: "\<exists>k. pick_key uk (environ w ''GEMINI_API_KEY'') = Some k \<and> k \<noteq> []"
  proof (rule ccontr)
    assume "\<not> ?thesis"
    then have "pick_key uk (environ w ''GEMINI_API_KEY'') = None
        \<or> pick_key uk (environ w ''GEMINI_API_KEY'') = Some []"
      by (cases "pick_key uk (environ w ''GEMINI_API_KEY'')") auto
    from handle_gemini_no_key [OF this, of pf cd] run call show False by simp
  qed
  then obtain k where k: "pick_key uk (environ w ''GEMINI_API_KEY'') = Some k" "k \<noteq> []"
    by blast
  have "\<exists>cdl. cd = JObj cdl"
  proof (cases cd)
    case (JObj x)
    then show ?thesis by simp
  qed (use run call k in \<open>auto simp: handle_gemini_request_def Let_def no_attribute_def\<close>)
  then obtain cdl where cd: "cd = JObj cdl" by blast
  have "c = gemini_call pf w cdl k"
    using run call handle_gemini_sends [OF k, of pf cdl]
    by (auto simp: cd Let_def split: upstream_result.splits if_splits)
  with cd k that show ?thesis by blast
qed

lemma handle_openai_no_key:
  assumes "pick_key uk (environ w ek) = None \<or> pick_key uk (environ w ek) = Some []"
  shows "handle_openai_compatible pf cd uk name base ek extra w =
     (Inl (Raised ValueError (name @
        '' API key is missing. Not found in client request or on server (env var: '' @ ek @ '').'')),
      w)"
  using assms by (auto simp: handle_openai_compatible_def Let_def)

lemma handle_openai_no_payload:
  assumes "and_then (transform_to_openai_format cd) (openai_payload cd) = Inl e"
  shows "snd (handle_openai_compatible pf cd uk name base ek extra w) = w"
  using assms by (auto simp: handle_openai_compatible_def Let_def split: option.splits)

lemma handle_openai_sends:
  assumes "pick_key uk (environ w ek) = Some k" "k \<noteq> []"
    and "and_then (transform_to_openai_format cd) (openai_payload cd) = Inr pl"
  shows "handle_openai_compatible pf cd uk name base ek extra w =
     (let c = openai_call w base extra k pl
      in (case respond pf c of
            Transport_Failure m \<Rightarrow> Inl (Raised RequestException m)
          | Responded r \<Rightarrow>
              if 400 \<le> status_code r \<and> status_code r < 600 then Inl (HTTPError r)
              else and_then (response_json r) transform_to_gemini_format,
          w\<lparr>clock := clock w + latency pf, sent := sent w @ [c]\<rparr>))"
  using assms
  by (simp add: handle_openai_compatible_def Let_def requests_post_def openai_call_def
      raise_for_status_def and_then_def split: upstream_result.splits)

lemma handle_openai_called:
  assumes run: "handle_openai_compatible pf cd uk name base ek extra w = (res, w')"
    and call: "sent w' = sent w @ [c]"
  obtains k pl where "pick_key uk (environ w ek) = Some k" "k \<noteq> []"
    "and_then (transform_to_openai_format cd) (openai_payload cd) = Inr pl"
    "c = openai_call w base extra k pl"
proof -
  have key: "\<exists>k. pick_key uk (environ w ek) = Some k \<and> k \<noteq> []"
  proof (rule ccontr)
    assume "\<not> ?thesis"
    then have "pick_key uk (environ w ek) = None \<or> pick_key uk (environ w ek) = Some []"
      by (cases "pick_key uk (environ w ek)") auto
    from handle_openai_no_key [OF this, of pf cd name base extra] run call show False by simp
  qed
  then obtain k where k: "pick_key uk (environ w ek) = Some k" "k \<noteq> []" by blast
  have "\<exists>pl. and_then (transform_to_openai_format cd) (openai_payload cd) = Inr pl"
  proof (cases "and_then (transform_to_openai_format cd) (openai_payload cd)")
    case (Inl e)
    from handle_openai_no_payload [OF this, of pf uk name base ek extra w] run call
    show ?thesis by simp
  qed simp
  then obtain pl where b: "and_then (transform_to_openai_format cd) (openai_payload cd) = Inr pl"
    by blast
  have "c = openai_call w base extra k pl"
    using run call handle_openai_sends [OF k b, of pf name base extra]
    by (auto simp: Let_def)
  with k b that show ?thesis by blast
qed

section \<open>Where the dispatcher sends a request\<close>

lemma proxy_try_routed:
  assumes "get_json req = Inr cd" "truthy cd"
    and "py_pop cd ''provider'' (JStr ''gemini'') = Inr (p, cd')"
    and "py_lower p = Inr provider"
  shows "proxy_try pf req w =
     (if provider = ''llmost'' then
        jsonify (handle_openai_compatible pf cd' (request_api_key req)
          ''LLMost'' ''https://llmost.ru/api/v1'' ''LLMOST_API_KEY'' [] w)
      else if provider = ''openrouter'' then
        jsonify (handle_openai_compatible pf cd' (request_api_key req)
          ''OpenRouter'' ''https://openrouter.ai/api/v1'' ''OPENROUTER_API_KEY''
          [(''HTTP-Referer'', ''https://github.com/MrKins/Chronicles-of-Meterea''),
           (''X-Title'', ''Chronicles of Meterea'')] w)
      else if provider = ''gemini'' then
        jsonify (handle_gemini_request pf cd' (request_api_key req) w)
      else (Inr \<lparr>status = 400, body = error_body (''Unsupported provider: '' @ provider)\<rparr>, w))"
  using assms by (simp add: proxy_try_def Let_def)

lemma proxy_try_object:
  assumes "get_json req = Inr (JObj cd)" "cd \<noteq> []"
    and "py_lower (or_default (map_of cd ''provider'') (JStr ''gemini'')) = Inr p"
  shows "proxy_try pf req w =
     (if p = ''llmost'' then
        jsonify (handle_openai_compatible pf (JObj (AList.delete ''provider'' cd))
          (request_api_key req) ''LLMost'' ''https://llmost.ru/api/v1'' ''LLMOST_API_KEY'' [] w)
      else if p = ''openrouter'' then
        jsonify (handle_openai_compatible pf (JObj (AList.delete ''provider'' cd))
          (request_api_key req) ''OpenRouter'' ''https://openrouter.ai/api/v1''
          ''OPENROUTER_API_KEY''
          [(''HTTP-Referer'', ''https://github.com/MrKins/Chronicles-of-Meterea''),
           (''X-Title'', ''Chronicles of Meterea'')] w)
      else if p = ''gemini'' then
        jsonify (handle_gemini_request pf (JObj (AList.delete ''provider'' cd))
          (request_api_key req) w)
      else (Inr \<lparr>status = 400, body = error_body (''Unsupported provider: '' @ p)\<rparr>, w))"
proof -
  have "py_pop (JObj cd) ''provider'' (JStr ''gemini'') =
      Inr (or_default (map_of cd ''provider'') (JStr ''gemini''), JObj (AList.delete ''provider'' cd))"
    by (simp add: or_default_def)
  from proxy_try_routed [OF assms(1) _ this assms(3)] assms(2) show ?thesis by simp
qed

text \<open>A request ends without any call, or in one of the two provider clients.\<close>

lemma proxy_try_routes:
  "snd (proxy_try pf req w) = w
   \<or> (\<exists>cd name base ek extra.
        proxy_try pf req w =
          jsonify (handle_openai_compatible pf cd (request_api_key req) name base ek extra w))
   \<or> (\<exists>cd. proxy_try pf req w = jsonify (handle_gemini_request pf cd (request_api_key req) w))"
proof (cases "get_json req")
  case (Inl e)
  then show ?thesis by (simp add: proxy_try_def)
next
  case (Inr cd)
  show ?thesis
  proof (cases "truthy cd")
    case False
    with Inr show ?thesis by (simp add: proxy_try_def)
  next
    case True
    show ?thesis
    proof (cases "py_pop cd ''provider'' (JStr ''gemini'')")
      case (Inl e)
      with Inr True show ?thesis by (simp add: proxy_try_def)
    next
      case popped: (Inr pr)
      obtain p cd' where pr: "pr = (p, cd')" by (cases pr)
      show ?thesis
      proof (cases "py_lower p")
        case (Inl e)
        with Inr True popped pr show ?thesis by (simp add: proxy_try_def)
      next
        case lowered: (Inr provider)
        note eq = proxy_try_routed [OF Inr True popped [unfolded pr] lowered, of pf w]
        consider "provider = ''llmost''" | "provider = ''openrouter''" | "provider = ''gemini''"
          | "provider \<noteq> ''llmost''" "provider \<noteq> ''openrouter''" "provider \<noteq> ''gemini''"
          by blast
        then show ?thesis
        proof cases
          case 1
          with eq have "proxy_try pf req w =
            jsonify (handle_openai_compatible pf cd' (request_api_key req)
              ''LLMost'' ''https://llmost.ru/api/v1'' ''LLMOST_API_KEY'' [] w)" by simp
          then show ?thesis by blast
        next
          case 2
          with eq have "proxy_try pf req w =
            jsonify (handle_openai_compatible pf cd' (request_api_key req)
              ''OpenRouter'' ''https://openrouter.ai/api/v1'' ''OPENROUTER_API_KEY''
              [(''HTTP-Referer'', ''https://github.com/MrKins/Chronicles-of-Meterea''),
               (''X-Title'', ''Chronicles of Meterea'')] w)" by simp
          then show ?thesis by blast
        next
          case 3
          with eq have "proxy_try pf req w =
            jsonify (handle_gemini_request pf cd' (request_api_key req) w)" by simp
          then show ?thesis by blast
        next
          case 4
          with eq show ?thesis by simp
        qed
      qed
    qed
  qed
qed

lemma jsonify_snd [simp]: "snd (jsonify rw) = snd rw"
  by (simp add: jsonify_def)

lemma proxy_handler_snd [simp]: "snd (proxy_handler pf req w) = snd (proxy_try pf req w)"
  by (auto simp: proxy_handler_def split: prod.splits sum.splits exn.splits option.splits)


text \<open>An upstream answer with a status from 400 to 599 reaches the handler as an \<open>HTTPError\<close>.\<close>

lemma upstream_error_raised:
  assumes call: "sent (snd (proxy_try pf req w)) = sent w @ [c]"
    and err: "respond pf c = Responded r" "400 \<le> status_code r" "status_code r < 600"
  shows "fst (proxy_try pf req w) = Inl (HTTPError r)"
proof -
  consider (quiet) "snd (proxy_try pf req w) = w"
    | (openai) cd name base ek extra where "proxy_try pf req w =
          jsonify (handle_openai_compatible pf cd (request_api_key req) name base ek extra w)"
    | (gemini) cd where
        "proxy_try pf req w = jsonify (handle_gemini_request pf cd (request_api_key req) w)"
    using proxy_try_routes [of pf req w] by blast
  then show ?thesis
  proof cases
    case quiet
    with call show ?thesis by simp
  next
    case (openai cd name base ek extra)
    obtain res w' where run:
      "handle_openai_compatible pf cd (request_api_key req) name base ek extra w = (res, w')"
      by (cases "handle_openai_compatible pf cd (request_api_key req) name base ek extra w")
    with call openai have sent: "sent w' = sent w @ [c]" by simp
    from run sent obtain k pl
      where k: "pick_key (request_api_key req) (environ w ek) = Some k" "k \<noteq> []"
      and b: "and_then (transform_to_openai_format cd) (openai_payload cd) = Inr pl"
      and c: "c = openai_call w base extra k pl"
      by (rule handle_openai_called)
    show ?thesis
      using err handle_openai_sends [OF k b, of pf name base extra]
      by (simp add: openai c Let_def jsonify_def)
  next
    case (gemini cd)
    obtain res w' where run:
      "handle_gemini_request pf cd (request_api_key req) w = (res, w')"
      by (cases "handle_gemini_request pf cd (request_api_key req) w")
    with call gemini have sent: "sent w' = sent w @ [c]" by simp
    from run sent obtain cdl k where cd: "cd = JObj cdl"
      and k: "pick_key (request_api_key req) (environ w ''GEMINI_API_KEY'') = Some k" "k \<noteq> []"
      and c: "c = gemini_call pf w cdl k"
      by (rule handle_gemini_called)
    show ?thesis
      using err handle_gemini_sends [OF k, of pf cdl]
      by (simp add: gemini cd c Let_def jsonify_def)
  qed
qed

section \<open>The rate limiter\<close>

text \<open>
  Claim C1, as stated: any two requests to the rate-limited provider, one right after the
  other, have their outbound calls start at least \<^verbatim>\<open>GEMINI_REQUEST_DELAY\<close> seconds apart.
  It fails when the first call is answered with an error status: the upstream answers 429
  twice, the process starts with the clock at 100, and the two calls start at 100 and at
  101.
\<close>

theorem spacing_lost_after_failed_call:
  "map sent_at (sent (after_two (answer 429 None))) = [100, 101]
   \<and> (101::rat) < 100 + GEMINI_REQUEST_DELAY"
  by (simp add: after_one_def after_two_def relay_defs fixture_defs)

text \<open>
  Claim C1, amended: when the first of two calls to the rate-limited provider was answered
  without an error status (\<^verbatim>\<open>raise_for_status\<close> did not raise), and nothing has changed
  \<^verbatim>\<open>last_gemini_request_time\<close> in between, the second call starts at least
  \<^verbatim>\<open>GEMINI_REQUEST_DELAY\<close> seconds after the first one started. The clock is monotonic:
  a call takes no negative time and a sleep does not end early. The wait is
  \<^verbatim>\<open>GEMINI_REQUEST_DELAY - elapsed\<close> (see \<open>gemini_rate_limit\<close>), and the time is recorded
  after the call has returned.
\<close>

theorem gemini_spacing_after_success:
  assumes nonneg: "0 \<le> latency pfa" "0 \<le> oversleep pfb"
    and first: "handle_gemini_request pfa cda uka w0 = (resa, w1)" "sent w1 = sent w0 @ [ca]"
    and ok: "respond pfa ca = Responded ra" "\<not> (400 \<le> status_code ra \<and> status_code ra < 600)"
    and between: "clock w1 \<le> clock w2"
      "last_gemini_request_time w2 = last_gemini_request_time w1"
    and second: "handle_gemini_request pfb cdb ukb w2 = (resb, w3)" "sent w3 = sent w2 @ [cb]"
  shows "sent_at ca + GEMINI_REQUEST_DELAY \<le> sent_at cb
    \<and> last_gemini_request_time w1 = sent_at ca + latency pfa
    \<and> sent_at cb =
        (if clock w2 - last_gemini_request_time w2 < GEMINI_REQUEST_DELAY
         then clock w2 + (GEMINI_REQUEST_DELAY - (clock w2 - last_gemini_request_time w2))
              + oversleep pfb
         else clock w2)"
proof -
  from first obtain cdl1 k1 where cd1: "cda = JObj cdl1"
    and k1: "pick_key uka (environ w0 ''GEMINI_API_KEY'') = Some k1" "k1 \<noteq> []"
    and c1: "ca = gemini_call pfa w0 cdl1 k1"
    by (rule handle_gemini_called)
  from second obtain cdl2 k2 where c2: "cb = gemini_call pfb w2 cdl2 k2"
    by (rule handle_gemini_called)
  have stamp: "last_gemini_request_time w1 = sent_at ca + latency pfa"
    using first(1) ok handle_gemini_sends [OF k1, of pfa cdl1]
    by (auto simp: cd1 c1 Let_def gemini_call_def)
  then have recorded: "sent_at ca \<le> last_gemini_request_time w2"
    using nonneg(1) between(2) by simp
  have start: "sent_at cb = clock (gemini_rate_limit pfb w2)"
    by (simp add: c2 gemini_call_def)
  have wait: "clock (gemini_rate_limit pfb w2) =
        (if clock w2 - last_gemini_request_time w2 < GEMINI_REQUEST_DELAY
         then clock w2 + (GEMINI_REQUEST_DELAY - (clock w2 - last_gemini_request_time w2))
              + oversleep pfb
         else clock w2)"
    by (simp add: gemini_rate_limit_def time_sleep_def Let_def)
  have "last_gemini_request_time w2 + GEMINI_REQUEST_DELAY \<le> clock (gemini_rate_limit pfb w2)"
    using nonneg(2) by (simp add: gemini_rate_limit_def time_sleep_def Let_def)
  with recorded start have "sent_at ca + GEMINI_REQUEST_DELAY \<le> sent_at cb" by simp
  with stamp start wait show ?thesis by simp
qed

theorem gemini_spacing_after_success_witness:
  "map sent_at (sent (after_two (answer 200 (Some (JObj []))))) = [100, 112]
   \<and> last_gemini_request_time (after_one (answer 200 (Some (JObj [])))) = 101"
proof -
  let ?res = "answer 200 (Some (JObj []))"
  let ?pf = "steady_platform ?res"
  let ?cd = "JObj [(''contents'', JList [])]"
  let ?ca = "sent (after_two ?res) ! 0"
  let ?cb = "sent (after_two ?res) ! 1"
  have nonneg: "0 \<le> latency ?pf" "0 \<le> oversleep ?pf"
    by (simp_all add: steady_platform_def)
  have first: "handle_gemini_request ?pf ?cd ''k'' (fresh_world 100) =
      (fst (handle_gemini_request ?pf ?cd ''k'' (fresh_world 100)), after_one ?res)"
    "sent (after_one ?res) = sent (fresh_world 100) @ [?ca]"
    by (simp_all add: after_one_def after_two_def relay_defs fixture_defs)
  have ok: "respond ?pf ?ca =
      Responded \<lparr>status_code = 200, response_text = ''busy'', json_body = Some (JObj [])\<rparr>"
    "\<not> (400 \<le> status_code \<lparr>status_code = 200, response_text = ''busy'',
            json_body = Some (JObj [])\<rparr>
        \<and> status_code \<lparr>status_code = 200, response_text = ''busy'',
            json_body = Some (JObj [])\<rparr> < 600)"
    by (simp_all add: fixture_defs)
  have between: "clock (after_one ?res) \<le> clock (after_one ?res)"
    "last_gemini_request_time (after_one ?res) = last_gemini_request_time (after_one ?res)"
    by simp_all
  have second: "handle_gemini_request ?pf ?cd ''k'' (after_one ?res) =
      (fst (handle_gemini_request ?pf ?cd ''k'' (after_one ?res)), after_two ?res)"
    "sent (after_two ?res) = sent (after_one ?res) @ [?cb]"
    by (simp_all add: after_one_def after_two_def relay_defs fixture_defs)
  from gemini_spacing_after_success [OF nonneg first ok between second]
  show ?thesis
    by (simp add: after_one_def after_two_def relay_defs fixture_defs)
qed

text \<open>
  Claim C9: when the outbound call of \<^verbatim>\<open>handle_gemini_request\<close> fails, by a transport
  failure or by a status that \<^verbatim>\<open>raise_for_status\<close> raises for,
  \<^verbatim>\<open>last_gemini_request_time\<close> keeps its value. So the time at which the rate limiter lets
  the next request go is computed from the value before the failed request: at once when
  that value is \<^verbatim>\<open>GEMINI_REQUEST_DELAY\<close> old, whatever the time of the failed call.
\<close>

theorem failed_call_keeps_timestamp:
  assumes run: "handle_gemini_request pf cd uk w = (res, w')"
    and call: "sent w' = sent w @ [c]"
    and failed: "(\<exists>m. respond pf c = Transport_Failure m)
       \<or> (\<exists>r. respond pf c = Responded r \<and> 400 \<le> status_code r \<and> status_code r < 600)"
  shows "last_gemini_request_time w' = last_gemini_request_time w
    \<and> clock (gemini_rate_limit pf' w') =
        (if clock w' - last_gemini_request_time w < GEMINI_REQUEST_DELAY
         then last_gemini_request_time w + GEMINI_REQUEST_DELAY + oversleep pf'
         else clock w')"
proof -
  from run call obtain cdl k where cd: "cd = JObj cdl"
    and k: "pick_key uk (environ w ''GEMINI_API_KEY'') = Some k" "k \<noteq> []"
    and c: "c = gemini_call pf w cdl k"
    by (rule handle_gemini_called)
  have unchanged: "last_gemini_request_time w' = last_gemini_request_time w"
    using run failed handle_gemini_sends [OF k, of pf cdl]
    by (auto simp: cd c Let_def)
  then show ?thesis
    by (simp add: gemini_rate_limit_def time_sleep_def Let_def)
qed

theorem failed_call_keeps_timestamp_witness:
  "last_gemini_request_time (after_one (answer 429 None)) = 0
   \<and> clock (gemini_rate_limit (steady_platform (answer 429 None)) (after_one (answer 429 None)))
       = 101"
proof -
  let ?pf = "steady_platform (answer 429 None)"
  let ?run = "handle_gemini_request ?pf (JObj [(''contents'', JList [])]) ''k'' (fresh_world 100)"
  have run: "?run = (fst ?run, after_one (answer 429 None))"
    by (simp add: after_one_def)
  have call: "sent (after_one (answer 429 None)) =
      sent (fresh_world 100) @ [sent (after_one (answer 429 None)) ! 0]"
    by (simp add: after_one_def relay_defs fixture_defs)
  have failed: "(\<exists>m. respond ?pf (sent (after_one (answer 429 None)) ! 0) = Transport_Failure m)
       \<or> (\<exists>r. respond ?pf (sent (after_one (answer 429 None)) ! 0) = Responded r
            \<and> 400 \<le> status_code r \<and> status_code r < 600)"
    by (simp add: fixture_defs)
  from failed_call_keeps_timestamp [OF run call failed, of ?pf]
  show ?thesis by (simp add: after_one_def relay_defs fixture_defs)
qed

section \<open>Errors of the upstream\<close>

text \<open>
  Claim C8, as stated: every outbound call answered with a status outside 200 to 299 is
  answered to the caller with that status. It fails for a status that
  \<^verbatim>\<open>raise_for_status\<close> does not raise for: the upstream answers 300 with a JSON body, and
  the caller receives that body with status 200.
\<close>

theorem status_300_not_passed_through:
  "fst (proxy_handler (steady_platform (answer 300 (Some (JObj [(''note'', JStr ''moved'')]))))
       (bearer_request (JObj [(''contents'', JList [])])) (fresh_world 100))
   = \<lparr>status = 200, body = JObj [(''note'', JStr ''moved'')]\<rparr>"
  by (simp add: relay_defs fixture_defs)

text \<open>
  Claim C8, amended: when the outbound call of a request is answered with a status from
  400 to 599, \<^verbatim>\<open>proxy_handler\<close> answers with that status, and with the upstream's JSON body
  when the body is valid JSON, else with \<^verbatim>\<open>{error: {message: <the upstream's text>}}\<close>.
\<close>

theorem upstream_error_passthrough:
  assumes call: "sent (snd (proxy_handler pf req w)) = sent w @ [c]"
    and err: "respond pf c = Responded r" "400 \<le> status_code r" "status_code r < 600"
  shows "fst (proxy_handler pf req w) =
     \<lparr>status = status_code r,
      body = (case json_body r of Some j \<Rightarrow> j | None \<Rightarrow> error_body (response_text r))\<rparr>"
proof -
  from call have "sent (snd (proxy_try pf req w)) = sent w @ [c]" by simp
  from upstream_error_raised [OF this err]
  show ?thesis
    by (cases "proxy_try pf req w") (auto simp: proxy_handler_def split: option.splits)
qed

theorem upstream_error_passthrough_witness:
  "fst (proxy_handler (steady_platform (answer 429 None))
       (bearer_request (JObj [(''contents'', JList [])])) (fresh_world 100))
   = \<lparr>status = 429, body = error_body ''busy''\<rparr>"
proof -
  let ?w' = "snd (proxy_handler (steady_platform (answer 429 None))
       (bearer_request (JObj [(''contents'', JList [])])) (fresh_world 100))"
  let ?r = "\<lparr>status_code = 429, response_text = ''busy'', json_body = None\<rparr>"
  have made: "sent ?w' = sent (fresh_world 100) @ [sent ?w' ! 0]"
    by (simp add: relay_defs fixture_defs)
  have answered: "respond (steady_platform (answer 429 None)) (sent ?w' ! 0) = Responded ?r"
    by (simp add: fixture_defs)
  have "400 \<le> status_code ?r" "status_code ?r < 600" by simp_all
  from upstream_error_passthrough [OF made answered this] show ?thesis by simp
qed

section \<open>Bodies the dispatcher rejects\<close>

text \<open>
  Claim C5 says that a body that does not parse is answered with a status of the 400
  class. When the body does not parse, \<^verbatim>\<open>request.get_json()\<close> does not return: the framework
  raises its \<open>BadRequest\<close> inside the \<^verbatim>\<open>try\<close>, the clause \<^verbatim>\<open>except Exception\<close> catches it, and
  the answer is 500; the branch of line 109 that answers 400 with
  \<^verbatim>\<open>Invalid JSON body\<close> is not reached.
\<close>

theorem unparseable_body_answered_500:
  "proxy_handler pf \<lparr>get_json = Inl (Raised BadRequest m), authorization = a\<rparr> w =
     (\<lparr>status = 500, body = error_body (''Proxy internal error: '' @ m)\<rparr>, w)"
  by (simp add: proxy_handler_def proxy_try_def)

text \<open>
  The other half of claim C5 holds: a provider outside the three names is answered with
  400 and a message that ends with the lower-cased name, and the state, so the log of
  calls, is as before.
\<close>

lemma unsupported_provider_rejected:
  assumes "get_json req = Inr (JObj cd)" "cd \<noteq> []" "map_of cd ''provider'' = Some (JStr p)"
    and "lower p \<notin> {''gemini'', ''openrouter'', ''llmost''}"
  shows "proxy_handler pf req w =
     (\<lparr>status = 400, body = error_body (''Unsupported provider: '' @ lower p)\<rparr>, w)"
  using assms by (simp add: proxy_handler_def proxy_try_def)

text \<open>
  Claim C10: a body that parses to a falsy value (the empty object, the empty list, 0,
  \<^verbatim>\<open>false\<close>, \<^verbatim>\<open>null\<close>) is answered with 400 and \<^verbatim>\<open>Invalid JSON body\<close>, and the state, so the
  log of calls, is as before.
\<close>

theorem falsy_body_rejected:
  "(get_json req = Inr v \<and> \<not> truthy v \<longrightarrow>
      proxy_handler pf req w = (\<lparr>status = 400, body = error_body ''Invalid JSON body''\<rparr>, w))
   \<and> \<not> truthy (JObj []) \<and> \<not> truthy (JList []) \<and> \<not> truthy (JInt 0)
   \<and> \<not> truthy (JBool False) \<and> \<not> truthy JNull"
  by (simp add: proxy_handler_def proxy_try_def)

theorem falsy_body_rejected_witness:
  "proxy_handler (steady_platform (answer 200 None))
     \<lparr>get_json = Inr (JObj []), authorization = None\<rparr> (fresh_world 100) =
     (\<lparr>status = 400, body = error_body ''Invalid JSON body''\<rparr>, fresh_world 100)"
  using falsy_body_rejected [of "\<lparr>get_json = Inr (JObj []), authorization = None\<rparr>" "JObj []"
      "steady_platform (answer 200 None)" "fresh_world 100"]
  by simp

section \<open>The format translator\<close>

text \<open>
  Claim C2, as stated: \<^verbatim>\<open>transform_to_gemini_format\<close> raises for no JSON value, and gives the
  text \<^verbatim>\<open>""\<close> and the finish reason \<^verbatim>\<open>STOP\<close> for an empty list of choices. It raises
  \<open>IndexError\<close> for the empty list of choices, whose first element it reads, and
  \<open>AttributeError\<close> for a message that is \<^verbatim>\<open>null\<close> and for a response that is a list.
\<close>

theorem transform_to_gemini_format_raises:
  "transform_to_gemini_format (JObj [(''choices'', JList [])])
     = Inl (Raised IndexError ''list index out of range'')
   \<and> transform_to_gemini_format (JObj [(''choices'', JList [JObj [(''message'', JNull)]])])
     = Inl (no_attribute JNull ''get'')
   \<and> transform_to_gemini_format (JList []) = Inl (no_attribute (JList []) ''get'')"
  by (simp add: transform_to_gemini_format_def and_then_def)

text \<open>
  Claim C2, amended: for a response that is an object, \<^verbatim>\<open>transform_to_gemini_format\<close>
  returns one candidate, and does not raise, in these cases: \<^verbatim>\<open>choices\<close> is absent (text
  \<^verbatim>\<open>""\<close>, finish reason \<^verbatim>\<open>STOP\<close>); \<^verbatim>\<open>choices\<close> is a list that starts with an object whose
  \<^verbatim>\<open>message\<close> is absent (text \<^verbatim>\<open>""\<close>) or an object (its \<^verbatim>\<open>content\<close>, or \<^verbatim>\<open>""\<close> when that
  is missing), the finish reason being the choice's \<^verbatim>\<open>finish_reason\<close>, or \<^verbatim>\<open>STOP\<close> when
  that is missing. Nothing is said about an empty list of choices.
\<close>

theorem transform_to_gemini_format_defaults:
  "(map_of r ''choices'' = None \<longrightarrow>
      transform_to_gemini_format (JObj r) = Inr (gemini_candidate (JStr []) (JStr ''STOP'')))
   \<and> (map_of r ''choices'' = Some (JList (JObj c # rest)) \<and> map_of c ''message'' = None \<longrightarrow>
      transform_to_gemini_format (JObj r) =
        Inr (gemini_candidate (JStr []) (or_default (map_of c ''finish_reason'') (JStr ''STOP''))))
   \<and> (map_of r ''choices'' = Some (JList (JObj c # rest))
        \<and> map_of c ''message'' = Some (JObj m) \<longrightarrow>
      transform_to_gemini_format (JObj r) =
        Inr (gemini_candidate (or_default (map_of m ''content'') (JStr []))
               (or_default (map_of c ''finish_reason'') (JStr ''STOP''))))"
  by (simp add: transform_to_gemini_format_def and_then_def gemini_candidate_def or_default_def)

theorem transform_to_gemini_format_defaults_witness:
  "transform_to_gemini_format (JObj []) = Inr (gemini_candidate (JStr []) (JStr ''STOP''))
   \<and> transform_to_gemini_format (JObj [(''choices'', JList [JObj []])])
       = Inr (gemini_candidate (JStr []) (JStr ''STOP''))
   \<and> transform_to_gemini_format
        (JObj [(''choices'', JList [JObj [(''message'', JObj [(''content'', JStr ''hi'')]),
                                         (''finish_reason'', JStr ''length'')]])])
       = Inr (gemini_candidate (JStr ''hi'') (JStr ''length''))"
  using transform_to_gemini_format_defaults [of "[]"]
    transform_to_gemini_format_defaults [of "[(''choices'', JList [JObj []])]" "[]" "[]"]
    transform_to_gemini_format_defaults
      [of "[(''choices'', JList [JObj [(''message'', JObj [(''content'', JStr ''hi'')]),
                                       (''finish_reason'', JStr ''length'')]])]"
          "[(''message'', JObj [(''content'', JStr ''hi'')]), (''finish_reason'', JStr ''length'')]"
          "[]" "[(''content'', JStr ''hi'')]"]
  by (simp add: or_default_def)

lemma transform_turn_well_formed:
  assumes "well_formed_turn t"
  shows "transform_turn t = Inr (spec_message t)"
proof -
  from assms obtain kvs where t: "t = JObj kvs" and u: "usable_parts (map_of kvs ''parts'')"
    by (cases t) auto
  have role: "(case map_of kvs ''role'' of None \<Rightarrow> JNull | Some v \<Rightarrow> v) = JStr ''model''
      \<longleftrightarrow> map_of kvs ''role'' = Some (JStr ''model'')"
    by (cases "map_of kvs ''role''") auto
  from u show ?thesis
  proof (cases "map_of kvs ''parts''" rule: usable_parts.cases)
    case 1
    then show ?thesis using role
      by (simp add: t transform_turn_def and_then_def)
  next
    case (2 p ps)
    then show ?thesis using role
      by (simp add: t transform_turn_def and_then_def or_default_def split: option.splits)
  qed (use u in simp_all)
qed

lemma for_each_total:
  "\<forall>x\<in>set xs. f x = Inr (g x) \<Longrightarrow> for_each f xs = Inr (map g xs)"
  by (induction xs) auto

text \<open>
  Claim C3, as stated: \<^verbatim>\<open>transform_to_openai_format\<close> fails on no input and gives the content
  \<^verbatim>\<open>""\<close> for a turn without parts. It raises \<open>IndexError\<close> for a turn whose list of parts
  is empty, and \<open>AttributeError\<close> for a turn that is not an object.
\<close>

theorem transform_to_openai_format_raises:
  "transform_to_openai_format
     (JObj [(''contents'', JList [JObj [(''role'', JStr ''user''), (''parts'', JList [])]])])
     = Inl (Raised IndexError ''list index out of range'')
   \<and> transform_to_openai_format (JObj [(''contents'', JList [JStr ''hi''])])
     = Inl (no_attribute (JStr ''hi'') ''get'')"
  by (simp add: transform_to_openai_format_def transform_turn_def and_then_def)

text \<open>
  Claim C3, amended: for a request that is an object whose \<^verbatim>\<open>contents\<close> is absent, the
  result is the empty list; for one whose \<^verbatim>\<open>contents\<close> is a list of turns, each an object
  whose \<^verbatim>\<open>parts\<close> is absent or a list that starts with an object, the result is one message
  for each turn, in order: the role is \<^verbatim>\<open>assistant\<close> when the turn's role is \<^verbatim>\<open>model\<close> and
  \<^verbatim>\<open>user\<close> otherwise, the content is the \<^verbatim>\<open>text\<close> of the first part, or \<^verbatim>\<open>""\<close> when the
  text or the \<^verbatim>\<open>parts\<close> field is missing. The function reads nothing but its argument and
  does not raise on these inputs. Nothing is said about an empty list of parts.
\<close>

theorem transform_to_openai_format_turns:
  "(map_of r ''contents'' = None \<longrightarrow> transform_to_openai_format (JObj r) = Inr [])
   \<and> (map_of r ''contents'' = Some (JList turns) \<and> (\<forall>t\<in>set turns. well_formed_turn t) \<longrightarrow>
        transform_to_openai_format (JObj r) = Inr (map spec_message turns))"
  by (auto simp: transform_to_openai_format_def and_then_def transform_turn_well_formed
      intro!: for_each_total)

theorem transform_to_openai_format_turns_witness:
  "transform_to_openai_format (JObj [(''modelName'', JStr ''x'')]) = Inr []
   \<and> transform_to_openai_format (JObj [(''contents'', JList
      [JObj [(''role'', JStr ''user''), (''parts'', JList [JObj [(''text'', JStr ''hi'')]])],
       JObj [(''role'', JStr ''model'')]])])
   = Inr [JObj [(''role'', JStr ''user''), (''content'', JStr ''hi'')],
          JObj [(''role'', JStr ''assistant''), (''content'', JStr [])]]"
  using transform_to_openai_format_turns [of "[(''modelName'', JStr ''x'')]"]
    transform_to_openai_format_turns [of "[(''contents'', JList
      [JObj [(''role'', JStr ''user''), (''parts'', JList [JObj [(''text'', JStr ''hi'')]])],
       JObj [(''role'', JStr ''model'')]])]"
      "[JObj [(''role'', JStr ''user''), (''parts'', JList [JObj [(''text'', JStr ''hi'')]])],
        JObj [(''role'', JStr ''model'')]]"]
  by (simp add: or_default_def)

section \<open>Keys\<close>

lemma str_replace_absent:
  "old \<noteq> [] \<Longrightarrow> \<not> contains old s \<Longrightarrow> str_replace old new s = s"
proof (induction s)
  case Nil
  then show ?case by (simp add: str_replace.simps)
next
  case (Cons c cs)
  then show ?case by (subst str_replace.simps) simp
qed

lemma str_replace_prefix:
  assumes "old \<noteq> []" "\<not> contains old k"
  shows "str_replace old [] (old @ k) = k"
proof -
  have "str_replace old [] (old @ k) = str_replace old [] k"
    using assms(1) by (subst str_replace.simps) simp
  with assms show ?thesis by (simp add: str_replace_absent)
qed

lemma resolved_key_pick:
  "resolved_key req w p =
     (case pick_key (request_api_key req) (environ w (env_key_of p)) of
        None \<Rightarrow> None | Some k \<Rightarrow> if k = [] then None else Some k)"
  by (simp add: resolved_key_def pick_key_def)

lemma resolved_key_Some:
  "resolved_key req w p = Some k \<longleftrightarrow>
     pick_key (request_api_key req) (environ w (env_key_of p)) = Some k \<and> k \<noteq> []"
  by (auto simp: resolved_key_pick split: option.splits if_splits)










section \<open>What is forwarded\<close>

lemma transform_ignores_provider:
  "transform_to_openai_format (JObj (AList.delete ''provider'' cd)) =
   transform_to_openai_format (JObj cd)"
  by (simp add: transform_to_openai_format_def)

lemma openai_payload_object:
  assumes "map_of cd ''generationConfig'' = None \<and> config = []
      \<or> map_of cd ''generationConfig'' = Some (JObj config)"
  shows "openai_payload (JObj (AList.delete ''provider'' cd)) msgs =
     Inr (chat_payload cd msgs config)"
  using assms by (auto simp: openai_payload_def and_then_def chat_payload_def or_default_def)

lemma forwarded_call_gemini:
  "gemini_call pf w (AList.delete ''provider'' cd) k = forwarded_call pf w cd k"
  by (simp add: gemini_call_def forwarded_call_def)

text \<open>
  Claim C4, as stated: the body sent to the native provider is the inbound body with only
  the \<^verbatim>\<open>provider\<close> field removed. Line 93 pops \<^verbatim>\<open>modelName\<close> from the same dict, so a
  model name that the request brings is not in the body sent.
\<close>

theorem gemini_body_drops_model_name:
  "map payload (sent (snd (proxy_handler (steady_platform (answer 200 (Some (JObj []))))
       (bearer_request (JObj [(''provider'', JStr ''gemini''), (''modelName'', JStr ''m''),
                              (''contents'', JList [])]))
       (fresh_world 100))))
   = [JObj [(''contents'', JList [])]]
   \<and> JObj [(''contents'', JList [])] \<noteq>
       JObj (AList.delete ''provider'' [(''provider'', JStr ''gemini''), (''modelName'', JStr ''m''),
                                        (''contents'', JList [])])"
  by (simp add: relay_defs fixture_defs)

text \<open>
  Claim C4, amended: for a request routed to the native provider with a key, the relay makes
  one call (\<open>forwarded_call\<close>): a POST to
  \<^verbatim>\<open>https://generativelanguage.googleapis.com/v1beta/models/{modelName}:generateContent?key={apiKey}\<close>,
  where \<^verbatim>\<open>modelName\<close> is the request's or \<^verbatim>\<open>gemini-1.5-flash-latest\<close>, whose body is the
  inbound body with the fields \<^verbatim>\<open>provider\<close> and \<^verbatim>\<open>modelName\<close> removed, and which passes no
  header; when the upstream answers without an error status and with a JSON body, that
  JSON is the answer, with status 200.
\<close>

theorem gemini_forwarding:
  assumes json: "get_json req = Inr (JObj cd)" "cd \<noteq> []"
    and prov: "py_lower (or_default (map_of cd ''provider'') (JStr ''gemini'')) = Inr ''gemini''"
    and key: "resolved_key req w ''gemini'' = Some k"
  shows "sent (snd (proxy_handler pf req w)) = sent w @ [forwarded_call pf w cd k]
     \<and> (\<forall>r j. respond pf (forwarded_call pf w cd k) = Responded r
            \<and> \<not> (400 \<le> status_code r \<and> status_code r < 600) \<and> json_body r = Some j
          \<longrightarrow> fst (proxy_handler pf req w) = \<lparr>status = 200, body = j\<rparr>)"
proof -
  note route = proxy_try_object [OF json prov, of pf w]
  from key
  have k: "pick_key (request_api_key req) (environ w ''GEMINI_API_KEY'') = Some k" "k \<noteq> []"
    by (simp_all add: resolved_key_Some env_key_of_def)
  note run = handle_gemini_sends [OF k, of pf "AList.delete ''provider'' cd",
      unfolded forwarded_call_gemini]
  have "sent (snd (proxy_try pf req w)) = sent w @ [forwarded_call pf w cd k]"
    using run by (simp add: route Let_def split: upstream_result.splits)
  moreover have "fst (proxy_handler pf req w) = \<lparr>status = 200, body = j\<rparr>"
    if "respond pf (forwarded_call pf w cd k) = Responded r"
      "\<not> (400 \<le> status_code r \<and> status_code r < 600)" "json_body r = Some j" for r j
    using that run
    by (simp add: proxy_handler_def route Let_def jsonify_def response_json_def)
  ultimately show ?thesis by simp
qed

theorem gemini_forwarding_witness:
  "map payload (sent (snd (proxy_handler (steady_platform (answer 200 (Some (JObj []))))
       (bearer_request (JObj [(''provider'', JStr ''gemini''),
          (''contents'', JList [JObj [(''role'', JStr ''user''),
                                      (''parts'', JList [JObj [(''text'', JStr ''hi'')]])]])]))
       (fresh_world 100))))
     = [JObj [(''contents'', JList [JObj [(''role'', JStr ''user''),
                                      (''parts'', JList [JObj [(''text'', JStr ''hi'')]])]])]]
   \<and> fst (proxy_handler (steady_platform (answer 200 (Some (JObj []))))
       (bearer_request (JObj [(''provider'', JStr ''gemini''),
          (''contents'', JList [JObj [(''role'', JStr ''user''),
                                      (''parts'', JList [JObj [(''text'', JStr ''hi'')]])]])]))
       (fresh_world 100))
     = \<lparr>status = 200, body = JObj []\<rparr>"
proof -
  let ?pf = "steady_platform (answer 200 (Some (JObj [])))"
  let ?cd = "[(''provider'', JStr ''gemini''),
          (''contents'', JList [JObj [(''role'', JStr ''user''),
                                      (''parts'', JList [JObj [(''text'', JStr ''hi'')]])]])]"
  have json: "get_json (bearer_request (JObj ?cd)) = Inr (JObj ?cd)" "?cd \<noteq> []"
    by (simp_all add: bearer_request_def)
  have prov: "py_lower (or_default (map_of ?cd ''provider'') (JStr ''gemini'')) = Inr ''gemini''"
    by (simp add: or_default_def lower_def lower_char_def)
  have key: "resolved_key (bearer_request (JObj ?cd)) (fresh_world 100) ''gemini'' = Some ''k''"
    by (simp add: resolved_key_def request_api_key_def str_replace.simps bearer_request_def)
  from gemini_forwarding [OF json prov key, of ?pf]
  show ?thesis
    by (simp add: forwarded_call_def steady_platform_def answer_def fresh_world_def)
qed

text \<open>
  Claim C6: for a request routed to \<^verbatim>\<open>openrouter\<close> or \<^verbatim>\<open>llmost\<close> with a key, whose turns
  translate and whose \<^verbatim>\<open>generationConfig\<close> is absent or an object, the relay makes one call
  (\<open>chat_call\<close>): a POST to \<^verbatim>\<open>{baseURL}/chat/completions\<close> with the body \<open>chat_payload\<close>
  (the model is the request's \<^verbatim>\<open>modelName\<close> or \<^verbatim>\<open>default-model\<close>, the messages are the
  translated turns, the temperature is the request's or 0.7, \<^verbatim>\<open>max_tokens\<close> is the
  request's \<^verbatim>\<open>maxOutputTokens\<close> or 4096), the key in the header \<^verbatim>\<open>HTTP-Authorization\<close>, no
  header \<^verbatim>\<open>Authorization\<close>, and the provider's extra headers.
\<close>

theorem chat_forwarding:
  assumes json: "get_json req = Inr (JObj cd)" "cd \<noteq> []"
    and prov: "py_lower (or_default (map_of cd ''provider'') (JStr ''gemini'')) = Inr p"
      "p \<in> {''openrouter'', ''llmost''}"
    and key: "resolved_key req w p = Some k"
    and msgs: "transform_to_openai_format (JObj cd) = Inr msgs"
    and cfg: "map_of cd ''generationConfig'' = None \<and> config = []
      \<or> map_of cd ''generationConfig'' = Some (JObj config)"
  shows "sent (snd (proxy_handler pf req w)) =
       sent w @ [chat_call w p k (chat_payload cd msgs config)]
     \<and> map_of (headers (chat_call w p k (chat_payload cd msgs config))) ''Authorization'' = None"
proof -
  note route = proxy_try_object [OF json prov(1), of pf w]
  have pl: "and_then (transform_to_openai_format (JObj (AList.delete ''provider'' cd)))
      (openai_payload (JObj (AList.delete ''provider'' cd))) = Inr (chat_payload cd msgs config)"
    using msgs openai_payload_object [OF cfg] by (simp add: transform_ignores_provider and_then_def)
  from key have k: "pick_key (request_api_key req) (environ w (env_key_of p)) = Some k" "k \<noteq> []"
    by (simp_all add: resolved_key_Some)
  have hdr: "map_of (headers (chat_call w p k (chat_payload cd msgs config))) ''Authorization'' = None"
    by (simp add: chat_call_def)
  consider "p = ''llmost''" | "p = ''openrouter''" using prov(2) by blast
  then have "sent (snd (proxy_handler pf req w)) =
       sent w @ [chat_call w p k (chat_payload cd msgs config)]"
  proof cases
    case 1
    with k have k': "pick_key (request_api_key req) (environ w ''LLMOST_API_KEY'') = Some k"
      by (simp add: env_key_of_def)
    show ?thesis
      using handle_openai_sends [OF k' k(2) pl, of pf "''LLMost''" "''https://llmost.ru/api/v1''" "[]"]
      by (simp add: route 1 Let_def chat_call_def openai_call_def dict_merge_def)
  next
    case 2
    with k have k': "pick_key (request_api_key req) (environ w ''OPENROUTER_API_KEY'') = Some k"
      by (simp add: env_key_of_def)
    show ?thesis
      using handle_openai_sends [OF k' k(2) pl, of pf "''OpenRouter''"
          "''https://openrouter.ai/api/v1''"
          "[(''HTTP-Referer'', ''https://github.com/MrKins/Chronicles-of-Meterea''),
            (''X-Title'', ''Chronicles of Meterea'')]"]
      by (simp add: route 2 Let_def chat_call_def openai_call_def dict_merge_def)
  qed
  with hdr show ?thesis by simp
qed

theorem chat_forwarding_witness:
  "sent (snd (proxy_handler (steady_platform (answer 200 (Some (JObj []))))
       (bearer_request (JObj [(''provider'', JStr ''openrouter''),
          (''contents'', JList [JObj [(''role'', JStr ''user''),
                                      (''parts'', JList [JObj [(''text'', JStr ''hi'')]])]]),
          (''modelName'', JStr ''x'')]))
       (fresh_world 100)))
     = [\<lparr>url = ''https://openrouter.ai/api/v1/chat/completions'',
         payload = JObj [(''model'', JStr ''x''),
                         (''messages'', JList [JObj [(''role'', JStr ''user''),
                                                     (''content'', JStr ''hi'')]]),
                         (''temperature'', JFloat (7 / 10)), (''max_tokens'', JInt 4096)],
         headers = [(''HTTP-Authorization'', ''Bearer k''), (''Content-Type'', ''application/json''),
                    (''HTTP-Referer'', ''https://github.com/MrKins/Chronicles-of-Meterea''),
                    (''X-Title'', ''Chronicles of Meterea'')],
         timeout = 60, sent_at = 100\<rparr>]"
proof -
  let ?pf = "steady_platform (answer 200 (Some (JObj [])))"
  let ?turns = "[JObj [(''role'', JStr ''user''), (''parts'', JList [JObj [(''text'', JStr ''hi'')]])]]"
  let ?cd = "[(''provider'', JStr ''openrouter''), (''contents'', JList ?turns),
              (''modelName'', JStr ''x'')]"
  have json: "get_json (bearer_request (JObj ?cd)) = Inr (JObj ?cd)" "?cd \<noteq> []"
    by (simp_all add: bearer_request_def)
  have prov: "py_lower (or_default (map_of ?cd ''provider'') (JStr ''gemini'')) = Inr ''openrouter''"
    "''openrouter'' \<in> {''openrouter'', ''llmost''}"
    by (simp_all add: or_default_def lower_def lower_char_def)
  have key: "resolved_key (bearer_request (JObj ?cd)) (fresh_world 100) ''openrouter'' = Some ''k''"
    by (simp add: resolved_key_def request_api_key_def str_replace.simps bearer_request_def)
  have msgs: "transform_to_openai_format (JObj ?cd) =
      Inr [JObj [(''role'', JStr ''user''), (''content'', JStr ''hi'')]]"
    by (simp add: transform_to_openai_format_def transform_turn_def and_then_def)
  have cfg: "map_of ?cd ''generationConfig'' = None \<and> [] = []
      \<or> map_of ?cd ''generationConfig'' = Some (JObj [])"
    by simp
  from chat_forwarding [OF json prov key msgs cfg, of ?pf]
  show ?thesis
    by (simp add: chat_call_def chat_payload_def or_default_def fresh_world_def)
qed

end
